theory Spec2Isabelle
  imports Main "HOL-Library.Sublist"
begin

section \<open>Values shared by the modules\<close>

text \<open>
  JSON documents (tool input schemas, tool arguments, backend results and the payloads the
  handler serialises).  Numbers are restricted to the integers.
\<close>

datatype json =
    JNull
  | JBool bool
  | JNum int
  | JStr string
  | JArr "json list"
  | JObj "(string \<times> json) list"

text \<open>JavaScript truthiness of a JSON value, as used by \<open>x || d\<close> and \<open>!x\<close>.\<close>

fun js_truthy :: "json \<Rightarrow> bool" where
  "js_truthy JNull = False"
| "js_truthy (JBool b) = b"
| "js_truthy (JNum n) = (n \<noteq> 0)"
| "js_truthy (JStr s) = (s \<noteq> [])"
| "js_truthy (JArr xs) = True"
| "js_truthy (JObj kvs) = True"

text \<open>
  A thrown value.  The handlers only ever read
  \<open>err instanceof Error ? err.message : String(err)\<close> from it.
\<close>

datatype thrown = ErrorObj string | NonError string

fun error_text :: "thrown \<Rightarrow> string" where
  "error_text (ErrorObj msg) = msg"
| "error_text (NonError s) = s"

text \<open>
  A JavaScript \<open>Map\<close>: its entries in insertion order.  \<open>set\<close> on a key that is present
  replaces the value and keeps the position; on a new key it appends.
\<close>

fun Map_set :: "('k \<times> 'v) list \<Rightarrow> 'k \<Rightarrow> 'v \<Rightarrow> ('k \<times> 'v) list" where
  "Map_set [] k v = [(k, v)]"
| "Map_set ((k', v') # m) k v =
     (if k' = k then (k, v) # m else (k', v') # Map_set m k v)"

fun Map_get :: "('k \<times> 'v) list \<Rightarrow> 'k \<Rightarrow> 'v option" where
  "Map_get [] k = None"
| "Map_get ((k', v') # m) k = (if k' = k then Some v' else Map_get m k)"

definition Map_values :: "('k \<times> 'v) list \<Rightarrow> 'v list" where
  "Map_values m = map snd m"

definition Map_keys :: "('k \<times> 'v) list \<Rightarrow> 'k list" where
  "Map_keys m = map fst m"

definition Map_size :: "('k \<times> 'v) list \<Rightarrow> nat" where
  "Map_size m = length m"


section \<open>types.ts\<close>

record ToolDefinition =
  name :: string
  description :: string
  input_schema :: json
  defer_loading :: "bool option"


section \<open>tool-cache.ts\<close>

record CachedTool =
  serverName :: string
  originalName :: string
  prefixedName :: string
  definition_of :: ToolDefinition

record ToolRoute =
  server :: string
  tool :: string

record ToolCache =
  tools :: "(string \<times> CachedTool) list"

definition new_ToolCache :: ToolCache where
  "new_ToolCache = \<lparr>tools = []\<rparr>"

text \<open>The template string \<open>`${serverName}__${tool.name}`\<close>.\<close>

definition prefixed :: "string \<Rightarrow> string \<Rightarrow> string" where
  "prefixed sn tn = sn @ ''__'' @ tn"

text \<open>The body of the loop of \<open>addFromServer\<close>, then the loop.\<close>

definition cache_entry :: "string \<Rightarrow> ToolDefinition \<Rightarrow> CachedTool" where
  "cache_entry sn t =
     \<lparr>serverName = sn,
      originalName = name t,
      prefixedName = prefixed sn (name t),
      definition_of = t\<lparr>name := prefixed sn (name t)\<rparr>\<rparr>"

fun addFromServer :: "ToolCache \<Rightarrow> string \<Rightarrow> ToolDefinition list \<Rightarrow> ToolCache" where
  "addFromServer c sn [] = c"
| "addFromServer c sn (t # ts) =
     addFromServer (c\<lparr>tools := Map_set (tools c) (prefixed sn (name t)) (cache_entry sn t)\<rparr>) sn ts"

definition getAllDefinitions :: "ToolCache \<Rightarrow> ToolDefinition list" where
  "getAllDefinitions c = map definition_of (Map_values (tools c))"

definition get :: "ToolCache \<Rightarrow> string \<Rightarrow> CachedTool option" where
  "get c pn = Map_get (tools c) pn"

definition getRoute :: "ToolCache \<Rightarrow> string \<Rightarrow> ToolRoute option" where
  "getRoute c pn =
     (case Map_get (tools c) pn of
        None \<Rightarrow> None
      | Some cached \<Rightarrow> Some \<lparr>server = serverName cached, tool = originalName cached\<rparr>)"

definition size_cache :: "ToolCache \<Rightarrow> nat" where
  "size_cache c = Map_size (tools c)"

definition getToolNames :: "ToolCache \<Rightarrow> string list" where
  "getToolNames c = Map_keys (tools c)"

definition clear :: "ToolCache \<Rightarrow> ToolCache" where
  "clear c = c\<lparr>tools := []\<rparr>"

text \<open>
  The mutating operations of the class, and the states a cache goes through when a
  sequence of them is run on a fresh instance.
\<close>

datatype cache_op = AddFromServer string "ToolDefinition list" | Clear

fun run_op :: "ToolCache \<Rightarrow> cache_op \<Rightarrow> ToolCache" where
  "run_op c (AddFromServer sn ts) = addFromServer c sn ts"
| "run_op c Clear = clear c"

definition run_ops :: "cache_op list \<Rightarrow> ToolCache" where
  "run_ops ops = foldl run_op new_ToolCache ops"



section \<open>backend-pool.ts\<close>

record BackendServerConfig =
  command :: "string option"
  args :: "string list option"
  env :: "(string \<times> string) list option"
  cwd :: "string option"
  url :: "string option"
  cfg_type :: "string option"
  headers :: "(string \<times> string) list option"

text \<open>
  \<open>Object.entries(config.backends)\<close>: the declared backends, in the order JavaScript
  enumerates them.
\<close>

record ProxyConfig =
  backends :: "(string \<times> BackendServerConfig) list"

text \<open>A tool as a backend lists it: description and input schema may be absent.\<close>

record ListedTool =
  listed_name :: string
  listed_description :: "string option"
  listed_inputSchema :: "json option"

text \<open>
  A connected MCP client.  What the backend answers is outside the program; a client
  carries the outcome of each call made through it (\<open>Inl\<close>: the call throws).
\<close>

record Client =
  listTools_outcome :: "thrown + ListedTool list"
  callTool_outcome :: "string \<Rightarrow> json \<Rightarrow> thrown + json"
  close_outcome :: "thrown option"

record BackendClient =
  client :: Client
  config :: BackendServerConfig

datatype transport =
    StreamableHTTPClientTransport "string option" "(string \<times> string) list option"
  | StdioClientTransport "string option" "string list" "(string \<times> string) list option"
      "string option"

text \<open>The lines the pool writes with \<open>console.error\<close>.\<close>

datatype pool_log =
    Connecting string
  | Connected string
  | Failed_to_connect string string
  | Cached nat string
  | Initialized nat nat
  | Closed_connection string
  | Error_closing string thrown

text \<open>
  The pool and the cache it was constructed with (\<open>index.ts\<close> creates one of each and
  hands the cache to the pool, so both see the same object), and the console.
\<close>

record server_state =
  toolCache :: ToolCache
  clients :: "(string \<times> BackendClient) list"
  console :: "pool_log list"

definition new_state :: server_state where
  "new_state = \<lparr>toolCache = new_ToolCache, clients = [], console = []\<rparr>"

definition console_error :: "server_state \<Rightarrow> pool_log \<Rightarrow> server_state" where
  "console_error s l = s\<lparr>console := console s @ [l]\<rparr>"

text \<open>
  The branch of \<open>connectServer\<close> that picks the transport: HTTP when the type is
  \<open>"http"\<close> or the URL is truthy, stdio otherwise (\<open>args || []\<close>).
\<close>

definition select_transport :: "BackendServerConfig \<Rightarrow> transport" where
  "select_transport cfg =
     (if cfg_type cfg = Some ''http'' \<or> (case url cfg of None \<Rightarrow> False | Some u \<Rightarrow> u \<noteq> [])
      then StreamableHTTPClientTransport (url cfg) (headers cfg)
      else StdioClientTransport (command cfg)
             (case args cfg of None \<Rightarrow> [] | Some a \<Rightarrow> a) (env cfg) (cwd cfg))"

text \<open>
  \<open>tools.map(tool => ({name, description: tool.description || "", input_schema:
  tool.inputSchema || {type: "object", properties: {}}}))\<close>
\<close>

definition toolDef :: "ListedTool \<Rightarrow> ToolDefinition" where
  "toolDef t =
     \<lparr>name = listed_name t,
      description = (case listed_description t of None \<Rightarrow> [] | Some d \<Rightarrow> d),
      input_schema =
        (case listed_inputSchema t of
           None \<Rightarrow> JObj [(''type'', JStr ''object''), (''properties'', JObj [])]
         | Some j \<Rightarrow>
             if js_truthy j then j
             else JObj [(''type'', JStr ''object''), (''properties'', JObj [])]),
      defer_loading = None\<rparr>"

text \<open>
  \<open>connectServer\<close>.  The parameter \<open>connect\<close> stands for building the transport object and
  the \<open>client.connect(transport)\<close> made for the named backend: it gives the client, or what
  was thrown.  Every declared backend has an outcome of its own, also when two of them are
  configured alike.  Nothing of the state is written before \<open>listTools\<close> has answered.
\<close>

definition connectServer ::
  "(string \<Rightarrow> transport \<Rightarrow> thrown + Client) \<Rightarrow> server_state \<Rightarrow> string \<Rightarrow> BackendServerConfig
     \<Rightarrow> thrown + server_state" where
  "connectServer connect s sn cfg =
     (case connect sn (select_transport cfg) of
        Inl err \<Rightarrow> Inl err
      | Inr cl \<Rightarrow>
          (case listTools_outcome cl of
             Inl err \<Rightarrow> Inl err
           | Inr listed \<Rightarrow>
               Inr (console_error
                 (s\<lparr>toolCache := addFromServer (toolCache s) sn (map toolDef listed),
                    clients := Map_set (clients s) sn \<lparr>client = cl, config = cfg\<rparr>\<rparr>)
                 (Cached (length (map toolDef listed)) sn))))"

text \<open>The loop of \<open>initialize\<close> over the declared backends, with its try/catch.\<close>

fun connect_all ::
  "(string \<Rightarrow> transport \<Rightarrow> thrown + Client) \<Rightarrow> server_state \<Rightarrow> (string \<times> BackendServerConfig) list
     \<Rightarrow> server_state" where
  "connect_all connect s [] = s"
| "connect_all connect s ((sn, cfg) # rest) =
     (case connectServer connect (console_error s (Connecting sn)) sn cfg of
        Inr s' \<Rightarrow> connect_all connect (console_error s' (Connected sn)) rest
      | Inl err \<Rightarrow>
          connect_all connect
            (console_error (console_error s (Connecting sn))
               (Failed_to_connect sn (error_text err))) rest)"


text \<open>Calls that leave the handler: into the pool, on to a backend, or to Bedrock.\<close>

record RequestTool =
  rt_type :: "string option"
  rt_name :: string
  rt_description :: "string option"
  rt_input_schema :: "json option"
  rt_defer_loading :: "bool option"

record TextBlock =
  block_kind :: string
  block_text :: string

record Message =
  role :: string
  msg_content :: "TextBlock list"

record RequestBody =
  anthropic_version :: string
  anthropic_beta :: "string list"
  max_tokens :: nat
  messages :: "Message list"
  req_tools :: "RequestTool list"

datatype call =
    Pool_callTool string string json
  | Client_callTool string string json
  | Bedrock_send RequestBody

text \<open>\<open>BackendPool.callTool\<close>: the outcome, and the calls made.\<close>

definition callTool ::
  "server_state \<Rightarrow> string \<Rightarrow> string \<Rightarrow> json \<Rightarrow> (thrown + json) \<times> call list" where
  "callTool s sn tn a =
     (case Map_get (clients s) sn of
        None \<Rightarrow>
          (Inl (ErrorObj (''Backend server not found: '' @ sn)), [Pool_callTool sn tn a])
      | Some backend \<Rightarrow>
          (callTool_outcome (client backend) tn a,
           [Pool_callTool sn tn a, Client_callTool sn tn a]))"

definition getConnectedServers :: "server_state \<Rightarrow> string list" where
  "getConnectedServers s = Map_keys (clients s)"

text \<open>\<open>close\<close>: each connection is closed in its own try/catch, then the map is cleared.\<close>

fun close_each :: "server_state \<Rightarrow> (string \<times> BackendClient) list \<Rightarrow> server_state" where
  "close_each s [] = s"
| "close_each s ((sn, backend) # rest) =
     (case close_outcome (client backend) of
        None \<Rightarrow> close_each (console_error s (Closed_connection sn)) rest
      | Some err \<Rightarrow> close_each (console_error s (Error_closing sn err)) rest)"

definition close :: "server_state \<Rightarrow> server_state" where
  "close s = (close_each s (clients s))\<lparr>clients := []\<rparr>"


section \<open>bedrock-client.ts\<close>

text \<open>The request body \<open>invokeWithToolSearch\<close> builds.\<close>

definition deferredTools :: "ToolDefinition list \<Rightarrow> RequestTool list" where
  "deferredTools ts =
     map (\<lambda>t. \<lparr>rt_type = None, rt_name = name t, rt_description = Some (description t),
                rt_input_schema = Some (input_schema t), rt_defer_loading = Some True\<rparr>) ts"

definition allTools :: "ToolDefinition list \<Rightarrow> string \<Rightarrow> RequestTool list" where
  "allTools ts searchType =
     \<lparr>rt_type = Some searchType, rt_name = searchType, rt_description = None,
      rt_input_schema = None, rt_defer_loading = None\<rparr> # deferredTools ts"

definition requestBody :: "Message list \<Rightarrow> ToolDefinition list \<Rightarrow> string \<Rightarrow> RequestBody" where
  "requestBody msgs ts searchType =
     \<lparr>anthropic_version = ''bedrock-2023-05-31'',
      anthropic_beta = [''tool-search-tool-2025-10-19''],
      max_tokens = 4096,
      messages = msgs,
      req_tools = allTools ts searchType\<rparr>"

record ToolRef =
  ref_tool_name :: "string option"

record SearchContent =
  tool_references :: "ToolRef list option"

record ResponseBlock =
  block_type :: string
  block_content :: "SearchContent option"

record BedrockResponse =
  resp_content :: "ResponseBlock list"

text \<open>
  \<open>send\<close> stands for \<open>client.send(command)\<close>, decoding and \<open>JSON.parse\<close>: the parsed
  response, or what was thrown.
\<close>

definition invokeWithToolSearch ::
  "(RequestBody \<Rightarrow> thrown + BedrockResponse) \<Rightarrow> Message list \<Rightarrow> ToolDefinition list \<Rightarrow> string
     \<Rightarrow> (thrown + BedrockResponse) \<times> call list" where
  "invokeWithToolSearch send msgs ts searchType =
     (send (requestBody msgs ts searchType), [Bedrock_send (requestBody msgs ts searchType)])"

text \<open>The two loops of \<open>extractToolReferences\<close>; \<open>toolRefs\<close> is the array being filled.\<close>

fun push_refs :: "string list \<Rightarrow> ToolRef list \<Rightarrow> string list" where
  "push_refs toolRefs [] = toolRefs"
| "push_refs toolRefs (r # rs) =
     push_refs
       (case ref_tool_name r of
          None \<Rightarrow> toolRefs
        | Some n \<Rightarrow> if n \<noteq> [] then toolRefs @ [n] else toolRefs) rs"

fun scan_blocks :: "string list \<Rightarrow> ResponseBlock list \<Rightarrow> string list" where
  "scan_blocks toolRefs [] = toolRefs"
| "scan_blocks toolRefs (b # bs) =
     scan_blocks
       (if block_type b = ''tool_search_tool_result'' then
          (case block_content b of
             None \<Rightarrow> toolRefs
           | Some sc \<Rightarrow>
               (case tool_references sc of
                  None \<Rightarrow> toolRefs
                | Some refs \<Rightarrow> push_refs toolRefs refs))
        else toolRefs) bs"

text \<open>\<open>xs.slice(0, end)\<close> for an integer \<open>end\<close>: a negative end counts from the back.\<close>

definition slice0 :: "'a list \<Rightarrow> int \<Rightarrow> 'a list" where
  "slice0 xs e =
     (let len = int (length xs);
          final = (if e < 0 then max (len + e) 0 else min e len)
      in take (nat final) xs)"

definition extractToolReferences :: "BedrockResponse \<Rightarrow> int option \<Rightarrow> string list" where
  "extractToolReferences response maxResults =
     slice0 (scan_blocks [] (resp_content response))
       (case maxResults of None \<Rightarrow> 5 | Some m \<Rightarrow> m)"

text \<open>
  What the specification says is collected: the tool names of the reference entries of
  the search-result blocks, in the order of the response.
\<close>

definition block_names :: "ResponseBlock \<Rightarrow> string list" where
  "block_names b =
     (if block_type b = ''tool_search_tool_result'' then
        (case block_content b of
           None \<Rightarrow> []
         | Some sc \<Rightarrow>
             (case tool_references sc of
                None \<Rightarrow> []
              | Some refs \<Rightarrow>
                  concat (map (\<lambda>r. case ref_tool_name r of None \<Rightarrow> []
                                     | Some n \<Rightarrow> if n \<noteq> [] then [n] else []) refs)))
      else [])"

definition collected_references :: "BedrockResponse \<Rightarrow> string list" where
  "collected_references response = concat (map block_names (resp_content response))"


section \<open>index.ts\<close>

text \<open>
  The arguments object of a request, read at the four properties the handler destructures;
  \<open>None\<close> is an absent property.  \<open>max_results\<close> is an integer.  A request that carries no
  arguments object at all is not modelled.
\<close>

record ToolArgs =
  query :: "string option"
  max_results :: "int option"
  tool_name :: "string option"
  arguments :: "json option"

text \<open>
  The result of the handler: text blocks, and the \<open>isError\<close> property when it is set.
  A text is a string, or \<open>JSON.stringify(v, null, 2)\<close> of a value \<open>v\<close>.
\<close>

datatype result_text = Text string | Stringify json

record CallToolResult =
  content :: "result_text list"
  isError :: "bool option"

definition search_tools ::
  "(RequestBody \<Rightarrow> thrown + BedrockResponse) \<Rightarrow> server_state \<Rightarrow> ToolArgs
     \<Rightarrow> CallToolResult \<times> call list" where
  "search_tools send s a =
     (case query a of
        None \<Rightarrow>
          (\<lparr>content = [Text ''Error: query parameter is required''], isError = Some True\<rparr>, [])
      | Some q \<Rightarrow>
          if q = [] then
            (\<lparr>content = [Text ''Error: query parameter is required''], isError = Some True\<rparr>, [])
          else if length (getAllDefinitions (toolCache s)) = 0 then
            (\<lparr>content =
                [Stringify (JObj
                   [(''error'',
                     JStr ''No tools available. Backend servers may not be connected.''),
                    (''tool_references'', JArr [])])],
              isError = None\<rparr>, [])
          else
            (let maxResults = (case max_results a of
                                 None \<Rightarrow> 5
                               | Some m \<Rightarrow> if m \<noteq> 0 then m else 5);
                 searchType = ''tool_search_tool_regex'';
                 (outcome, calls) =
                   invokeWithToolSearch send
                     [\<lparr>role = ''user'', msg_content = [\<lparr>block_kind = ''text'', block_text = q\<rparr>]\<rparr>]
                     (getAllDefinitions (toolCache s)) searchType
             in case outcome of
                  Inl err \<Rightarrow>
                    (\<lparr>content = [Text (''Error searching tools: '' @ error_text err)],
                      isError = Some True\<rparr>, calls)
                | Inr response \<Rightarrow>
                    (let toolRefs = extractToolReferences response (Some maxResults);
                         results =
                           map (\<lambda>ref.
                                  JObj [(''name'', JStr ref),
                                        (''description'',
                                         JStr (case get (toolCache s) ref of
                                                 None \<Rightarrow> []
                                               | Some cached \<Rightarrow>
                                                   take 200 (description (definition_of cached))))])
                               toolRefs
                     in (\<lparr>content =
                            [Stringify (JObj
                               [(''tool_references'', JArr (map JStr toolRefs)),
                                (''tools'', JArr results),
                                (''query'', JStr q),
                                (''total_tools_available'',
                                 JNum (int (length (getAllDefinitions (toolCache s)))))])],
                          isError = None\<rparr>, calls))))"

definition call_tool :: "server_state \<Rightarrow> ToolArgs \<Rightarrow> CallToolResult \<times> call list" where
  "call_tool s a =
     (case tool_name a of
        None \<Rightarrow>
          (\<lparr>content = [Text ''Error: tool_name parameter is required''],
            isError = Some True\<rparr>, [])
      | Some tn \<Rightarrow>
          if tn = [] then
            (\<lparr>content = [Text ''Error: tool_name parameter is required''],
              isError = Some True\<rparr>, [])
          else
            (case getRoute (toolCache s) tn of
               None \<Rightarrow>
                 (\<lparr>content =
                     [Text (''Error: Unknown tool '' @ [CHR 0x22] @ tn @ [CHR 0x22]
                            @ ''. Use search_tools to find available tools.'')],
                   isError = Some True\<rparr>, [])
             | Some route \<Rightarrow>
                 (let (outcome, calls) =
                        callTool s (server route) (tool route)
                          (case arguments a of
                             None \<Rightarrow> JObj []
                           | Some j \<Rightarrow> if js_truthy j then j else JObj [])
                  in case outcome of
                       Inl err \<Rightarrow>
                         (\<lparr>content = [Text (''Error calling tool: '' @ error_text err)],
                           isError = Some True\<rparr>, calls)
                     | Inr result \<Rightarrow>
                         (\<lparr>content = [Stringify result], isError = None\<rparr>, calls))))"

text \<open>The handler registered for \<open>CallToolRequestSchema\<close>.\<close>

definition handle_call ::
  "(RequestBody \<Rightarrow> thrown + BedrockResponse) \<Rightarrow> server_state \<Rightarrow> string \<Rightarrow> ToolArgs
     \<Rightarrow> CallToolResult \<times> call list" where
  "handle_call send s nm a =
     (if nm = ''search_tools'' then search_tools send s a
      else if nm = ''call_tool'' then call_tool s a
      else (\<lparr>content = [Text (''Unknown tool: '' @ nm)], isError = Some True\<rparr>, []))"


section \<open>Reading results and logs\<close>

text \<open>
  The payload a caller gets by parsing the text of a result, and one of its fields.
\<close>

fun payload_of :: "result_text list \<Rightarrow> (string \<times> json) list option" where
  "payload_of [Stringify (JObj kvs)] = Some kvs"
| "payload_of ts = None"

definition payload_field :: "CallToolResult \<Rightarrow> string \<Rightarrow> json option" where
  "payload_field r k = (case payload_of (content r) of None \<Rightarrow> None | Some kvs \<Rightarrow> map_of kvs k)"

text \<open>
  Whether \<open>connectServer\<close> succeeds for a declared backend (this does not depend on the
  state), and the backends the console shows a connection attempt for.
\<close>

definition connects :: "(string \<Rightarrow> transport \<Rightarrow> thrown + Client) \<Rightarrow> string \<times> BackendServerConfig \<Rightarrow> bool" where
  "connects connect b =
     (case connectServer connect new_state (fst b) (snd b) of
        Inl err \<Rightarrow> False
      | Inr s' \<Rightarrow> True)"



section \<open>Example inputs\<close>

definition tool_x :: ToolDefinition where
  "tool_x = \<lparr>name = ''x'', description = ''first'', input_schema = JObj [],
             defer_loading = None\<rparr>"

definition tool_y :: ToolDefinition where
  "tool_y = \<lparr>name = ''y'', description = ''second'', input_schema = JObj [],
             defer_loading = None\<rparr>"

text \<open>
  Two backends whose tools get the same identifier: backend \<open>a\<close> with tool \<open>b__c\<close> and
  backend \<open>a__b\<close> with tool \<open>c\<close>.
\<close>

definition tool_b_c :: ToolDefinition where
  "tool_b_c = \<lparr>name = ''b__c'', description = ''earlier'', input_schema = JObj [],
               defer_loading = None\<rparr>"

definition tool_c :: ToolDefinition where
  "tool_c = \<lparr>name = ''c'', description = ''later'', input_schema = JObj [],
             defer_loading = None\<rparr>"


text \<open>
  A configuration with three backends: \<open>down\<close> cannot be started, \<open>a\<close> offers \<open>x\<close> and
  \<open>y\<close> over stdio, \<open>b\<close> offers \<open>x\<close> over HTTP.
\<close>

definition listed_x :: ListedTool where
  "listed_x = \<lparr>listed_name = ''x'', listed_description = Some ''first'',
               listed_inputSchema = None\<rparr>"

definition listed_y :: ListedTool where
  "listed_y = \<lparr>listed_name = ''y'', listed_description = None,
               listed_inputSchema = Some (JObj [(''type'', JStr ''object'')])\<rparr>"

definition client_a :: Client where
  "client_a = \<lparr>listTools_outcome = Inr [listed_x, listed_y],
               callTool_outcome = (\<lambda>tn a. Inr (JStr tn)),
               close_outcome = None\<rparr>"

definition client_b :: Client where
  "client_b = \<lparr>listTools_outcome = Inr [listed_x],
               callTool_outcome = (\<lambda>tn a. Inl (ErrorObj ''tool failed'')),
               close_outcome = Some (ErrorObj ''already closed'')\<rparr>"

definition stdio_config :: "string \<Rightarrow> BackendServerConfig" where
  "stdio_config cmd = \<lparr>command = Some cmd, args = None, env = None, cwd = None, url = None,
                        cfg_type = None, headers = None\<rparr>"

definition http_config :: "string \<Rightarrow> BackendServerConfig" where
  "http_config u = \<lparr>command = None, args = None, env = None, cwd = None, url = Some u,
                      cfg_type = Some ''http'', headers = None\<rparr>"

definition example_connect :: "string \<Rightarrow> transport \<Rightarrow> thrown + Client" where
  "example_connect sn t =
     (case t of
        StdioClientTransport cmd as ev dir \<Rightarrow>
          if cmd = Some ''serve-a'' then Inr client_a else Inl (ErrorObj ''spawn ENOENT'')
      | StreamableHTTPClientTransport u hs \<Rightarrow>
          if u = Some ''http://b'' then Inr client_b else Inl (ErrorObj ''Invalid URL''))"

definition example_config :: ProxyConfig where
  "example_config =
     \<lparr>backends = [(''down'', stdio_config ''missing''), (''a'', stdio_config ''serve-a''),
                  (''b'', http_config ''http://b'')]\<rparr>"

definition example_state :: server_state where
  "example_state = connect_all example_connect new_state (backends example_config)"

definition invoke_args :: "string \<Rightarrow> ToolArgs" where
  "invoke_args k = \<lparr>query = None, max_results = None, tool_name = Some k, arguments = None\<rparr>"


text \<open>
  A search response with five references in two search-result blocks, between blocks of
  other types; one entry has an empty name.
\<close>

definition search_args :: "string \<Rightarrow> int option \<Rightarrow> ToolArgs" where
  "search_args q m = \<lparr>query = Some q, max_results = m, tool_name = None, arguments = None\<rparr>"

definition ref :: "string \<Rightarrow> ToolRef" where
  "ref n = \<lparr>ref_tool_name = Some n\<rparr>"

definition example_response :: BedrockResponse where
  "example_response =
     \<lparr>resp_content =
        [\<lparr>block_type = ''server_tool_use'', block_content = None\<rparr>,
         \<lparr>block_type = ''tool_search_tool_result'',
          block_content = Some \<lparr>tool_references =
            Some [ref ''b__x'', ref ''a__y'', ref '''', ref ''a__x'']\<rparr>\<rparr>,
         \<lparr>block_type = ''text'', block_content = None\<rparr>,
         \<lparr>block_type = ''tool_search_tool_result'',
          block_content = Some \<lparr>tool_references = Some [ref ''a__z'', ref ''a__w'']\<rparr>\<rparr>]\<rparr>"

definition example_send :: "RequestBody \<Rightarrow> thrown + BedrockResponse" where
  "example_send body = Inr example_response"









section \<open>The cache: lemmas\<close>

lemma Map_get_set: "Map_get (Map_set m k v) k' = (if k' = k then Some v else Map_get m k')"
  by (induction m) auto

lemma Map_keys_set:
  "map fst (Map_set m k v) = (if k \<in> fst ` set m then map fst m else map fst m @ [k])"
  by (induction m) force+

lemma distinct_Map_set: "distinct (map fst m) \<Longrightarrow> distinct (map fst (Map_set m k v))"
  by (simp add: Map_keys_set)

lemma prefixed_inject: "prefixed sn a = prefixed sn b \<longleftrightarrow> a = b"
  by (simp add: prefixed_def)

lemma addFromServer_append:
  "addFromServer c sn (xs @ ys) = addFromServer (addFromServer c sn xs) sn ys"
  by (induction xs arbitrary: c) simp_all

lemma get_addFromServer_other:
  "\<forall>t \<in> set ts. name t \<noteq> tn \<Longrightarrow>
   Map_get (tools (addFromServer c sn ts)) (prefixed sn tn) = Map_get (tools c) (prefixed sn tn)"
  by (induction ts arbitrary: c) (auto simp: Map_get_set prefixed_inject)

lemma get_addFromServer_last:
  assumes "\<forall>t \<in> set post. name t \<noteq> name d"
  shows "Map_get (tools (addFromServer c sn (pre @ d # post))) (prefixed sn (name d))
           = Some (cache_entry sn d)"
proof -
  have "addFromServer c sn (pre @ d # post)
          = addFromServer (addFromServer (addFromServer c sn pre) sn [d]) sn post"
    by (simp add: addFromServer_append)
  then show ?thesis
    using assms by (simp add: get_addFromServer_other Map_get_set)
qed

lemma get_addFromServer_member:
  "tn \<in> name ` set ts \<Longrightarrow>
   \<exists>d' \<in> set ts. name d' = tn \<and>
     Map_get (tools (addFromServer c sn ts)) (prefixed sn tn) = Some (cache_entry sn d')"
proof (induction ts arbitrary: c)
  case Nil
  then show ?case by simp
next
  case (Cons t ts)
  show ?case
  proof (cases "tn \<in> name ` set ts")
    case True
    from Cons.IH [OF True] show ?thesis by auto
  next
    case False
    with Cons.prems have eq: "name t = tn" by auto
    from False have "\<forall>u \<in> set ts. name u \<noteq> tn" by auto
    then have "Map_get (tools (addFromServer
         (c\<lparr>tools := Map_set (tools c) (prefixed sn (name t)) (cache_entry sn t)\<rparr>) sn ts))
         (prefixed sn tn) = Some (cache_entry sn t)"
      by (simp add: get_addFromServer_other Map_get_set eq)
    with eq show ?thesis by auto
  qed
qed

lemma distinct_addFromServer:
  "distinct (map fst (tools c)) \<Longrightarrow> distinct (map fst (tools (addFromServer c sn ts)))"
  by (induction ts arbitrary: c) (simp_all add: distinct_Map_set)

lemma distinct_foldl_run_op:
  "distinct (map fst (tools c)) \<Longrightarrow> distinct (map fst (tools (foldl run_op c ops)))"
proof (induction ops arbitrary: c)
  case Nil
  then show ?case by simp
next
  case (Cons x ops)
  then show ?case by (cases x) (simp_all add: distinct_addFromServer clear_def)
qed

lemma distinct_run_ops: "distinct (map fst (tools (run_ops ops)))"
  by (simp add: run_ops_def new_ToolCache_def distinct_foldl_run_op)

lemma Map_get_Some_key: "Map_get m k = Some v \<Longrightarrow> k \<in> fst ` set m"
  by (induction m) (auto split: if_splits)

lemma count_key_distinct:
  "distinct (map fst m) \<Longrightarrow>
   length (filter (\<lambda>e. fst e = k) m) = (if k \<in> fst ` set m then 1 else 0)"
  by (induction m) (auto simp: image_iff)


section \<open>The cache: properties\<close>

text \<open>
  C1.  Whatever the cache held before, once \<open>addFromServer\<close> has run for backend \<open>b\<close> on a
  list that contains a definition with original name \<open>t\<close>, \<open>getRoute\<close> of
  \<open>b + "__" + t\<close> is the pair \<open>(b, t)\<close>.
\<close>

theorem route_after_register:
  "d \<in> set ts \<Longrightarrow>
   getRoute (addFromServer c b ts) (b @ ''__'' @ name d) = Some \<lparr>server = b, tool = name d\<rparr>"
proof -
  assume "d \<in> set ts"
  then have "name d \<in> name ` set ts" by simp
  then obtain d' where "name d' = name d"
    "Map_get (tools (addFromServer c b ts)) (prefixed b (name d)) = Some (cache_entry b d')"
    using get_addFromServer_member by blast
  then show ?thesis
    by (simp add: getRoute_def cache_entry_def prefixed_def)
qed

theorem route_after_register_witness:
  "tool_x \<in> set [tool_x, tool_y] \<and>
   getRoute (addFromServer new_ToolCache ''a'' [tool_x, tool_y]) ''a__x''
     = Some \<lparr>server = ''a'', tool = ''x''\<rparr>"
  using route_after_register [of tool_x "[tool_x, tool_y]" new_ToolCache "''a''"]
  by (simp add: tool_x_def)

text \<open>
  C2.  Two registrations with the same unique identifier: a definition \<open>d1\<close> registered
  for backend \<open>b1\<close>, then a definition \<open>d2\<close> registered for backend \<open>b2\<close> (the last of its
  call with that name).  The first call leaves an entry of backend \<open>b1\<close> under the
  identifier; after the second the cache holds exactly one entry under it, and it is the
  entry of the later registration.
\<close>

theorem later_registration_replaces:
  assumes "d1 \<in> set ts1"
    and "\<forall>t \<in> set post. name t \<noteq> name d2"
    and "prefixed b1 (name d1) = prefixed b2 (name d2)"
  shows "(\<exists>d \<in> set ts1. name d = name d1
            \<and> get (addFromServer (run_ops ops) b1 ts1) (prefixed b1 (name d1))
                = Some (cache_entry b1 d))
       \<and> get (addFromServer (addFromServer (run_ops ops) b1 ts1) b2 (pre @ d2 # post))
           (prefixed b1 (name d1)) = Some (cache_entry b2 d2)
       \<and> length (filter (\<lambda>e. fst e = prefixed b1 (name d1))
            (tools (addFromServer (addFromServer (run_ops ops) b1 ts1) b2 (pre @ d2 # post))))
         = 1"
proof -
  let ?c = "addFromServer (addFromServer (run_ops ops) b1 ts1) b2 (pre @ d2 # post)"
  have g: "Map_get (tools ?c) (prefixed b2 (name d2)) = Some (cache_entry b2 d2)"
    using assms(2) by (rule get_addFromServer_last)
  have "distinct (map fst (tools ?c))"
    by (intro distinct_addFromServer distinct_run_ops)
  moreover have "prefixed b2 (name d2) \<in> fst ` set (tools ?c)"
    using g by (rule Map_get_Some_key)
  ultimately have "length (filter (\<lambda>e. fst e = prefixed b2 (name d2)) (tools ?c)) = 1"
    by (simp add: count_key_distinct)
  moreover from assms(1) have "name d1 \<in> name ` set ts1" by simp
  then have "\<exists>d \<in> set ts1. name d = name d1
            \<and> get (addFromServer (run_ops ops) b1 ts1) (prefixed b1 (name d1))
                = Some (cache_entry b1 d)"
    unfolding get_def by (rule get_addFromServer_member)
  ultimately show ?thesis
    using g assms(3) by (simp add: get_def)
qed

theorem later_registration_replaces_witness:
  "tool_b_c \<in> set [tool_x, tool_b_c]
   \<and> name tool_y \<noteq> name tool_c
   \<and> prefixed ''a'' (name tool_b_c) = prefixed ''a__b'' (name tool_c)
   \<and> get (addFromServer (run_ops []) ''a'' [tool_x, tool_b_c]) ''a__b__c''
       = Some \<lparr>serverName = ''a'', originalName = ''b__c'', prefixedName = ''a__b__c'',
               definition_of = tool_b_c\<lparr>name := ''a__b__c''\<rparr>\<rparr>
   \<and> get (addFromServer (addFromServer (run_ops []) ''a'' [tool_x, tool_b_c]) ''a__b''
            ([] @ tool_c # [tool_y])) ''a__b__c''
       = Some \<lparr>serverName = ''a__b'', originalName = ''c'', prefixedName = ''a__b__c'',
               definition_of = tool_c\<lparr>name := ''a__b__c''\<rparr>\<rparr>
   \<and> length (filter (\<lambda>e. fst e = ''a__b__c'')
        (tools (addFromServer (addFromServer (run_ops []) ''a'' [tool_x, tool_b_c]) ''a__b''
            ([] @ tool_c # [tool_y])))) = 1"
proof -
  have h1: "tool_b_c \<in> set [tool_x, tool_b_c]" by simp
  have h2: "\<forall>t \<in> set [tool_y]. name t \<noteq> name tool_c"
    by (simp add: tool_y_def tool_c_def)
  have h3: "prefixed ''a'' (name tool_b_c) = prefixed ''a__b'' (name tool_c)"
    by (simp add: prefixed_def tool_b_c_def tool_c_def)
  show ?thesis
    using later_registration_replaces [OF h1 h2 h3, of "[]" "[]"] h1 h2 h3
    by (simp add: prefixed_def cache_entry_def tool_b_c_def tool_c_def tool_x_def tool_y_def
        get_def run_ops_def new_ToolCache_def)
qed

text \<open>
  C9.  In every state a cache reaches from a fresh instance by \<open>addFromServer\<close> and \<open>clear\<close>,
  the array \<open>getAllDefinitions\<close> returns is as long as \<open>size\<close> says; and \<open>size\<close> is the number
  of distinct identifiers in the cache.
\<close>

theorem definitions_length_is_size:
  "length (getAllDefinitions (run_ops ops)) = size_cache (run_ops ops)
   \<and> size_cache (run_ops ops) = card (set (getToolNames (run_ops ops)))"
proof -
  have "card (set (map fst (tools (run_ops ops)))) = length (map fst (tools (run_ops ops)))"
    using distinct_run_ops by (rule distinct_card)
  then show ?thesis
    by (simp add: getAllDefinitions_def size_cache_def Map_values_def Map_size_def
        getToolNames_def Map_keys_def)
qed


section \<open>The pool and the handler: lemmas\<close>

lemma toolCache_console_error [simp]: "toolCache (console_error s l) = toolCache s"
  by (simp add: console_error_def)

lemma clients_console_error [simp]: "clients (console_error s l) = clients s"
  by (simp add: console_error_def)

lemma toolCache_close_each: "toolCache (close_each s bs) = toolCache s"
  by (induction bs arbitrary: s) (auto split: option.splits)

lemma toolCache_close: "toolCache (close s) = toolCache s"
  by (simp add: close_def toolCache_close_each)

lemma clients_close: "clients (close s) = []"
  by (simp add: close_def)

lemma callTool_no_clients:
  "clients s = [] \<Longrightarrow>
   callTool s sn tn a
     = (Inl (ErrorObj (''Backend server not found: '' @ sn)), [Pool_callTool sn tn a])"
  by (simp add: callTool_def)

lemma call_tool_after_close:
  assumes "tool_name a = Some k" and "k \<noteq> []" and "getRoute (toolCache s) k = Some r"
  shows "call_tool (close s) a
           = (\<lparr>content = [Text (''Error calling tool: Backend server not found: '' @ server r)],
               isError = Some True\<rparr>,
              [Pool_callTool (server r) (tool r)
                 (case arguments a of None \<Rightarrow> JObj []
                  | Some j \<Rightarrow> if js_truthy j then j else JObj [])])"
  using assms
  by (simp add: call_tool_def toolCache_close callTool_no_clients [OF clients_close])

text \<open>The example state: the cache holds \<open>a__x\<close>, \<open>a__y\<close> and \<open>b__x\<close>.\<close>

lemma example_state_cache:
  "map fst (tools (toolCache example_state)) = [''a__x'', ''a__y'', ''b__x'']"
  by (simp add: example_state_def example_config_def example_connect_def connectServer_def
      select_transport_def stdio_config_def http_config_def client_a_def client_b_def
      new_state_def new_ToolCache_def toolDef_def listed_x_def listed_y_def prefixed_def
      cache_entry_def console_error_def)

lemma example_route:
  "getRoute (toolCache example_state) ''a__x'' = Some \<lparr>server = ''a'', tool = ''x''\<rparr>"
  by (simp add: example_state_def example_config_def example_connect_def connectServer_def
      select_transport_def stdio_config_def http_config_def client_a_def client_b_def
      new_state_def new_ToolCache_def toolDef_def listed_x_def listed_y_def prefixed_def
      cache_entry_def console_error_def getRoute_def)


lemma search_tools_calls:
  assumes "query a = Some q" and "q \<noteq> []" and "tools (toolCache s) \<noteq> []"
  shows "snd (search_tools send s a)
           = [Bedrock_send (requestBody
                 [\<lparr>role = ''user'', msg_content = [\<lparr>block_kind = ''text'', block_text = q\<rparr>]\<rparr>]
                 (getAllDefinitions (toolCache s)) ''tool_search_tool_regex'')]"
  using assms
  by (simp add: search_tools_def getAllDefinitions_def Map_values_def
      invokeWithToolSearch_def Let_def split: sum.splits)

section \<open>The search request\<close>

text \<open>
  C8.  Whatever the messages and the cached definitions, the tool list of the request
  \<open>invokeWithToolSearch\<close> sends starts with the search-capability descriptor, which carries
  no \<open>defer_loading\<close>, and goes on with the cached definitions in their order, each with
  \<open>defer_loading = true\<close>; the descriptor is the only entry that is not deferred.  The
  request \<open>search_tools\<close> sends for a query is built this way from \<open>getAllDefinitions\<close>.
\<close>

theorem search_request_tool_list:
  "snd (invokeWithToolSearch send msgs ts st) = [Bedrock_send (requestBody msgs ts st)]
   \<and> length (req_tools (requestBody msgs ts st)) = Suc (length ts)
   \<and> rt_type (hd (req_tools (requestBody msgs ts st))) = Some st
   \<and> rt_name (hd (req_tools (requestBody msgs ts st))) = st
   \<and> rt_defer_loading (hd (req_tools (requestBody msgs ts st))) = None
   \<and> map rt_name (tl (req_tools (requestBody msgs ts st))) = map name ts
   \<and> map rt_description (tl (req_tools (requestBody msgs ts st)))
        = map (\<lambda>t. Some (description t)) ts
   \<and> map rt_input_schema (tl (req_tools (requestBody msgs ts st)))
        = map (\<lambda>t. Some (input_schema t)) ts
   \<and> map rt_defer_loading (tl (req_tools (requestBody msgs ts st)))
        = replicate (length ts) (Some True)
   \<and> filter (\<lambda>t. rt_defer_loading t \<noteq> Some True) (req_tools (requestBody msgs ts st))
        = [hd (req_tools (requestBody msgs ts st))]
   \<and> (query a = Some q \<and> q \<noteq> [] \<and> tools (toolCache s) \<noteq> [] \<longrightarrow>
        snd (handle_call send s ''search_tools'' a)
          = [Bedrock_send (requestBody
               [\<lparr>role = ''user'', msg_content = [\<lparr>block_kind = ''text'', block_text = q\<rparr>]\<rparr>]
               (getAllDefinitions (toolCache s)) ''tool_search_tool_regex'')])"
  by (simp add: invokeWithToolSearch_def requestBody_def allTools_def deferredTools_def
      comp_def map_replicate_const handle_call_def search_tools_calls)

theorem search_request_tool_list_witness:
  "map rt_name
     (req_tools (requestBody
        [\<lparr>role = ''user'', msg_content = [\<lparr>block_kind = ''text'', block_text = ''x''\<rparr>]\<rparr>]
        (getAllDefinitions (toolCache example_state)) ''tool_search_tool_regex''))
     = [''tool_search_tool_regex'', ''a__x'', ''a__y'', ''b__x'']
   \<and> map rt_defer_loading
     (req_tools (requestBody
        [\<lparr>role = ''user'', msg_content = [\<lparr>block_kind = ''text'', block_text = ''x''\<rparr>]\<rparr>]
        (getAllDefinitions (toolCache example_state)) ''tool_search_tool_regex''))
     = [None, Some True, Some True, Some True]
   \<and> snd (handle_call example_send example_state ''search_tools'' (search_args ''x'' None))
     = [Bedrock_send (requestBody
          [\<lparr>role = ''user'', msg_content = [\<lparr>block_kind = ''text'', block_text = ''x''\<rparr>]\<rparr>]
          (getAllDefinitions (toolCache example_state)) ''tool_search_tool_regex'')]"
proof -
  have q: "query (search_args ''x'' None) = Some ''x''"
    by (simp add: search_args_def)
  have ne: "tools (toolCache example_state) \<noteq> []"
    using example_state_cache by auto
  have defs: "map name (getAllDefinitions (toolCache example_state))
                = [''a__x'', ''a__y'', ''b__x'']"
    by (simp add: example_state_def example_config_def example_connect_def connectServer_def
      select_transport_def stdio_config_def http_config_def client_a_def client_b_def
      new_state_def new_ToolCache_def toolDef_def listed_x_def listed_y_def prefixed_def
      cache_entry_def console_error_def getAllDefinitions_def Map_values_def)
  have len: "length (getAllDefinitions (toolCache example_state)) = 3"
    using defs [THEN arg_cong, of length] by simp
  let ?body = "requestBody
        [\<lparr>role = ''user'', msg_content = [\<lparr>block_kind = ''text'', block_text = ''x''\<rparr>]\<rparr>]
        (getAllDefinitions (toolCache example_state)) ''tool_search_tool_regex''"
  note t = search_request_tool_list [of example_send
      "[\<lparr>role = ''user'', msg_content = [\<lparr>block_kind = ''text'', block_text = ''x''\<rparr>]\<rparr>]"
      "getAllDefinitions (toolCache example_state)" "''tool_search_tool_regex''"
      "search_args ''x'' None" "''x''" example_state]
  from t have n0: "rt_name (hd (req_tools ?body)) = ''tool_search_tool_regex''"
    and ns: "map rt_name (tl (req_tools ?body)) = [''a__x'', ''a__y'', ''b__x'']"
    and d0: "rt_defer_loading (hd (req_tools ?body)) = None"
    and ds: "map rt_defer_loading (tl (req_tools ?body)) = [Some True, Some True, Some True]"
    and ln: "length (req_tools ?body) = Suc 3"
    by (simp_all add: defs len numeral_3_eq_3)
  from t q ne have sent: "snd (handle_call example_send example_state ''search_tools''
        (search_args ''x'' None)) = [Bedrock_send ?body]"
    by simp
  have split: "map f (req_tools ?body) = f (hd (req_tools ?body)) # map f (tl (req_tools ?body))"
    for f :: "RequestTool \<Rightarrow> 'b"
    using ln by (cases "req_tools ?body") simp_all
  show ?thesis
    by (simp only: split n0 ns d0 ds sent simp_thms)
qed

section \<open>The handler\<close>

text \<open>
  C4.  \<open>search_tools\<close> with a non-empty query on an empty cache returns the payload
  \<open>{error, tool_references: []}\<close> as a normal result (\<open>isError\<close> is not set) and makes no
  call to Bedrock.
\<close>

theorem discover_on_empty_cache:
  assumes "query a = Some q" and "q \<noteq> []" and "tools (toolCache s) = []"
  shows "handle_call send s ''search_tools'' a
           = (\<lparr>content =
                 [Stringify (JObj
                    [(''error'',
                      JStr ''No tools available. Backend servers may not be connected.''),
                     (''tool_references'', JArr [])])],
               isError = None\<rparr>, [])"
  using assms
  by (simp add: handle_call_def search_tools_def getAllDefinitions_def Map_values_def)

theorem discover_on_empty_cache_witness:
  "handle_call (\<lambda>b. Inl (ErrorObj ''unreachable'')) new_state ''search_tools''
      \<lparr>query = Some ''x'', max_results = None, tool_name = None, arguments = None\<rparr>
     = (\<lparr>content =
           [Stringify (JObj
              [(''error'',
                JStr ''No tools available. Backend servers may not be connected.''),
               (''tool_references'', JArr [])])],
         isError = None\<rparr>, [])"
  using discover_on_empty_cache [of
      "\<lparr>query = Some ''x'', max_results = None, tool_name = None, arguments = None\<rparr>"
      "''x''" new_state "\<lambda>b. Inl (ErrorObj ''unreachable'')"]
  by (simp add: new_state_def new_ToolCache_def)

text \<open>
  C5.  \<open>call_tool\<close> with a tool name the cache has no route for returns a result flagged
  \<open>isError\<close> whose text contains the tool name, and calls neither the pool nor a backend.
\<close>

theorem invoke_unknown_tool:
  assumes "tool_name a = Some k" and "getRoute (toolCache s) k = None"
  shows "\<exists>txt. handle_call send s ''call_tool'' a
                 = (\<lparr>content = [Text txt], isError = Some True\<rparr>, [])
               \<and> sublist k txt
               \<and> (k \<noteq> [] \<longrightarrow>
                    txt = ''Error: Unknown tool '' @ [CHR 0x22] @ k @ [CHR 0x22]
                          @ ''. Use search_tools to find available tools.'')"
proof (cases "k = []")
  case True
  with assms show ?thesis
    by (simp add: handle_call_def call_tool_def)
next
  case False
  have "sublist k ((''Error: Unknown tool '' @ [CHR 0x22]) @ k @ ([CHR 0x22]
                          @ ''. Use search_tools to find available tools.''))"
    by (rule sublist_appendI)
  with False assms show ?thesis
    by (simp add: handle_call_def call_tool_def)
qed

theorem invoke_unknown_tool_witness:
  "handle_call (\<lambda>b. Inl (ErrorObj ''unreachable'')) example_state ''call_tool'' (invoke_args ''x'')
     = (\<lparr>content = [Text (''Error: Unknown tool '' @ [CHR 0x22] @ ''x'' @ [CHR 0x22]
                          @ ''. Use search_tools to find available tools.'')],
         isError = Some True\<rparr>, [])"
proof -
  have h1: "tool_name (invoke_args ''x'') = Some ''x''"
    by (simp add: invoke_args_def)
  have h2: "getRoute (toolCache example_state) ''x'' = None"
    by (simp add: example_state_def example_config_def example_connect_def connectServer_def
      select_transport_def stdio_config_def http_config_def client_a_def client_b_def
      new_state_def new_ToolCache_def toolDef_def listed_x_def listed_y_def prefixed_def
      cache_entry_def console_error_def getRoute_def)
  from invoke_unknown_tool [OF h1 h2, of "\<lambda>b. Inl (ErrorObj ''unreachable'')"]
  show ?thesis by auto
qed

text \<open>
  C6.  After \<open>close\<close>, \<open>callTool\<close> throws "Backend server not found" for every backend
  name, so \<open>call_tool\<close> for an identifier that had a route before \<open>close\<close> returns that
  error and reaches no backend.
\<close>

theorem route_fails_after_close:
  "fst (callTool (close s) sn tn j) = Inl (ErrorObj (''Backend server not found: '' @ sn))
   \<and> (tool_name a = Some k \<and> k \<noteq> [] \<and> getRoute (toolCache s) k = Some r \<longrightarrow>
        handle_call send (close s) ''call_tool'' a
          = (\<lparr>content = [Text (''Error calling tool: Backend server not found: '' @ server r)],
              isError = Some True\<rparr>,
             [Pool_callTool (server r) (tool r)
                (case arguments a of None \<Rightarrow> JObj []
                 | Some j \<Rightarrow> if js_truthy j then j else JObj [])]))"
  by (simp add: callTool_no_clients [OF clients_close] handle_call_def call_tool_after_close)

theorem route_fails_after_close_witness:
  "fst (callTool (close example_state) ''a'' ''x'' (JObj []))
     = Inl (ErrorObj ''Backend server not found: a'')
   \<and> getRoute (toolCache example_state) ''a__x'' = Some \<lparr>server = ''a'', tool = ''x''\<rparr>
   \<and> handle_call (\<lambda>b. Inl (ErrorObj ''unreachable'')) example_state ''call_tool''
         (invoke_args ''a__x'')
       = (\<lparr>content = [Stringify (JStr ''x'')], isError = None\<rparr>,
          [Pool_callTool ''a'' ''x'' (JObj []), Client_callTool ''a'' ''x'' (JObj [])])
   \<and> handle_call (\<lambda>b. Inl (ErrorObj ''unreachable'')) (close example_state) ''call_tool''
         (invoke_args ''a__x'')
       = (\<lparr>content = [Text ''Error calling tool: Backend server not found: a''],
           isError = Some True\<rparr>,
          [Pool_callTool ''a'' ''x'' (JObj [])])"
proof -
  have before: "handle_call (\<lambda>b. Inl (ErrorObj ''unreachable'')) example_state ''call_tool''
         (invoke_args ''a__x'')
       = (\<lparr>content = [Stringify (JStr ''x'')], isError = None\<rparr>,
          [Pool_callTool ''a'' ''x'' (JObj []), Client_callTool ''a'' ''x'' (JObj [])])"
    by (simp add: handle_call_def call_tool_def invoke_args_def example_route callTool_def)
      (simp add: example_state_def example_config_def example_connect_def connectServer_def
      select_transport_def stdio_config_def http_config_def client_a_def client_b_def
      new_state_def new_ToolCache_def toolDef_def listed_x_def listed_y_def prefixed_def
      cache_entry_def console_error_def)
  show ?thesis
    using route_fails_after_close [of example_state "''a''" "''x''" "JObj []"
        "invoke_args ''a__x''" "''a__x''" "\<lparr>server = ''a'', tool = ''x''\<rparr>"
        "\<lambda>b. Inl (ErrorObj ''unreachable'')"] example_route before
    by (simp add: invoke_args_def)
qed

text \<open>
  C10.  \<open>close\<close> clears the connections and leaves the cache as it was: \<open>get\<close>, \<open>getRoute\<close>
  and \<open>size\<close> answer as before, so \<open>call_tool\<close> for a registered identifier fails in the
  pool with "Backend server not found", not with the handler's "Unknown tool".
\<close>

theorem close_leaves_cache:
  "toolCache (close s) = toolCache s
   \<and> get (toolCache (close s)) k = get (toolCache s) k
   \<and> getRoute (toolCache (close s)) k = getRoute (toolCache s) k
   \<and> size_cache (toolCache (close s)) = size_cache (toolCache s)
   \<and> clients (close s) = []
   \<and> (tool_name a = Some k \<and> k \<noteq> [] \<and> get (toolCache s) k = Some e \<longrightarrow>
        fst (handle_call send (close s) ''call_tool'' a)
          = \<lparr>content = [Text (''Error calling tool: Backend server not found: ''
                              @ serverName e)],
             isError = Some True\<rparr>
        \<and> fst (handle_call send (close s) ''call_tool'' a)
          \<noteq> \<lparr>content = [Text (''Error: Unknown tool '' @ [CHR 0x22] @ k @ [CHR 0x22]
                              @ ''. Use search_tools to find available tools.'')],
             isError = Some True\<rparr>)"
proof -
  have "fst (handle_call send (close s) ''call_tool'' a)
          = \<lparr>content = [Text (''Error calling tool: Backend server not found: ''
                              @ serverName e)],
             isError = Some True\<rparr>"
    if "tool_name a = Some k" "k \<noteq> []" "get (toolCache s) k = Some e"
  proof -
    from that(3) have "getRoute (toolCache s) k
        = Some \<lparr>server = serverName e, tool = originalName e\<rparr>"
      by (simp add: get_def getRoute_def)
    from call_tool_after_close [OF that(1,2) this] show ?thesis
      by (simp add: handle_call_def)
  qed
  then show ?thesis
    by (simp add: toolCache_close clients_close)
qed

theorem close_leaves_cache_witness:
  "get (toolCache example_state) ''b__x''
     = Some \<lparr>serverName = ''b'', originalName = ''x'', prefixedName = ''b__x'',
             definition_of = \<lparr>name = ''b__x'', description = ''first'',
               input_schema = JObj [(''type'', JStr ''object''), (''properties'', JObj [])],
               defer_loading = None\<rparr>\<rparr>
   \<and> get (toolCache (close example_state)) ''b__x'' = get (toolCache example_state) ''b__x''
   \<and> size_cache (toolCache (close example_state)) = 3
   \<and> fst (handle_call (\<lambda>b. Inl (ErrorObj ''unreachable'')) (close example_state) ''call_tool''
         (invoke_args ''b__x''))
       = \<lparr>content = [Text ''Error calling tool: Backend server not found: b''],
          isError = Some True\<rparr>"
proof -
  have g: "get (toolCache example_state) ''b__x''
     = Some \<lparr>serverName = ''b'', originalName = ''x'', prefixedName = ''b__x'',
             definition_of = \<lparr>name = ''b__x'', description = ''first'',
               input_schema = JObj [(''type'', JStr ''object''), (''properties'', JObj [])],
               defer_loading = None\<rparr>\<rparr>"
    by (simp add: example_state_def example_config_def example_connect_def connectServer_def
      select_transport_def stdio_config_def http_config_def client_a_def client_b_def
      new_state_def new_ToolCache_def toolDef_def listed_x_def listed_y_def prefixed_def
      cache_entry_def console_error_def get_def)
  have sz: "size_cache (toolCache example_state) = 3"
    using example_state_cache [THEN arg_cong, of length]
    by (simp add: size_cache_def Map_size_def)
  show ?thesis
    using close_leaves_cache [of example_state "''b__x''" "invoke_args ''b__x''" _
        "\<lambda>b. Inl (ErrorObj ''unreachable'')"] g sz
    by (simp add: invoke_args_def)
qed

section \<open>Extracting and truncating the references\<close>

lemma push_refs_eq:
  "push_refs acc rs
     = acc @ concat (map (\<lambda>r. case ref_tool_name r of None \<Rightarrow> []
                                | Some n \<Rightarrow> if n \<noteq> [] then [n] else []) rs)"
  by (induction rs arbitrary: acc) (auto split: option.splits)

lemma scan_blocks_eq: "scan_blocks acc bs = acc @ concat (map block_names bs)"
  by (induction bs arbitrary: acc) (auto simp: block_names_def push_refs_eq split: option.splits)

lemma slice0_nonneg: "0 \<le> e \<Longrightarrow> slice0 xs e = take (nat e) xs"
  by (simp add: slice0_def Let_def min_def)

lemma extractToolReferences_eq:
  "0 \<le> m \<Longrightarrow>
   extractToolReferences response (Some m) = take (nat m) (collected_references response)"
  by (simp add: extractToolReferences_def collected_references_def scan_blocks_eq slice0_nonneg)

lemma search_tools_found:
  assumes "query a = Some q" and "q \<noteq> []" and "tools (toolCache s) \<noteq> []"
    and "send (requestBody
                 [\<lparr>role = ''user'', msg_content = [\<lparr>block_kind = ''text'', block_text = q\<rparr>]\<rparr>]
                 (getAllDefinitions (toolCache s)) ''tool_search_tool_regex'') = Inr response"
  shows "payload_field (fst (search_tools send s a)) ''tool_references''
           = Some (JArr (map JStr (extractToolReferences response
                (Some (case max_results a of None \<Rightarrow> 5 | Some m \<Rightarrow> if m \<noteq> 0 then m else 5)))))"
    and "isError (fst (search_tools send s a)) = None"
    and "snd (search_tools send s a)
           = [Bedrock_send (requestBody
                 [\<lparr>role = ''user'', msg_content = [\<lparr>block_kind = ''text'', block_text = q\<rparr>]\<rparr>]
                 (getAllDefinitions (toolCache s)) ''tool_search_tool_regex'')]"
  using assms
  by (simp_all add: search_tools_def getAllDefinitions_def Map_values_def
      invokeWithToolSearch_def payload_field_def Let_def)

lemma example_collected:
  "collected_references example_response = [''b__x'', ''a__y'', ''a__x'', ''a__z'', ''a__w'']"
  by (simp add: collected_references_def example_response_def block_names_def ref_def)

lemma example_nonempty: "tools (toolCache example_state) \<noteq> []"
  using example_state_cache by auto

text \<open>
  C3, as it holds of the code.  When the search answers, \<open>search_tools\<close> returns as \<open>tool_references\<close> the
  first \<open>m\<close> of the references collected from the search-result blocks, in the order of
  the response, for every \<open>max_results = m\<close> with \<open>m > 0\<close>; when \<open>max_results\<close> is absent or
  \<open>0\<close> it returns the first 5.  With \<open>max_results = 2\<close> and five references it returns the
  first two.
\<close>

theorem discover_truncates:
  assumes "query a = Some q" and "q \<noteq> []" and "tools (toolCache s) \<noteq> []"
    and "send (requestBody
                 [\<lparr>role = ''user'', msg_content = [\<lparr>block_kind = ''text'', block_text = q\<rparr>]\<rparr>]
                 (getAllDefinitions (toolCache s)) ''tool_search_tool_regex'') = Inr response"
  shows "(max_results a = Some m \<and> 0 < m \<longrightarrow>
            payload_field (fst (handle_call send s ''search_tools'' a)) ''tool_references''
              = Some (JArr (map JStr (take (nat m) (collected_references response)))))
       \<and> (max_results a = None \<or> max_results a = Some 0 \<longrightarrow>
            payload_field (fst (handle_call send s ''search_tools'' a)) ''tool_references''
              = Some (JArr (map JStr (take 5 (collected_references response)))))
       \<and> isError (fst (handle_call send s ''search_tools'' a)) = None"
  using search_tools_found [where send = send and response = response, OF assms]
  by (auto simp: handle_call_def extractToolReferences_eq)

theorem discover_truncates_witness:
  "payload_field (fst (handle_call example_send example_state ''search_tools''
        (search_args ''x'' (Some 2)))) ''tool_references''
     = Some (JArr [JStr ''b__x'', JStr ''a__y''])
   \<and> payload_field (fst (handle_call example_send example_state ''search_tools''
        (search_args ''x'' None))) ''tool_references''
     = Some (JArr [JStr ''b__x'', JStr ''a__y'', JStr ''a__x'', JStr ''a__z'', JStr ''a__w''])"
proof -
  have s: "example_send (requestBody
                 [\<lparr>role = ''user'', msg_content = [\<lparr>block_kind = ''text'', block_text = ''x''\<rparr>]\<rparr>]
                 (getAllDefinitions (toolCache example_state)) ''tool_search_tool_regex'')
            = Inr example_response"
    by (simp add: example_send_def)
  have q: "query (search_args ''x'' m) = Some ''x''" for m
    by (simp add: search_args_def)
  have ne: "''x'' \<noteq> []" by simp
  from discover_truncates [where send = example_send and response = example_response
           and a = "search_args ''x'' (Some 2)" and m = 2, OF q ne example_nonempty s]
       discover_truncates [where send = example_send and response = example_response
           and a = "search_args ''x'' None" and m = 1, OF q ne example_nonempty s]
  show ?thesis
    by (simp add: search_args_def example_collected)
qed

text \<open>
  At \<open>max_results = 0\<close> the handler does not return the first 0 references: \<open>0 || 5\<close> is 5.
\<close>

theorem discover_zero_counterexample:
  "collected_references example_response = [''b__x'', ''a__y'', ''a__x'', ''a__z'', ''a__w'']
   \<and> payload_field (fst (handle_call example_send example_state ''search_tools''
        (search_args ''x'' (Some 0)))) ''tool_references''
     = Some (JArr [JStr ''b__x'', JStr ''a__y'', JStr ''a__x'', JStr ''a__z'', JStr ''a__w''])
   \<and> payload_field (fst (handle_call example_send example_state ''search_tools''
        (search_args ''x'' (Some 0)))) ''tool_references''
     \<noteq> Some (JArr (map JStr (take (nat 0) (collected_references example_response))))"
proof -
  have s: "example_send (requestBody
                 [\<lparr>role = ''user'', msg_content = [\<lparr>block_kind = ''text'', block_text = ''x''\<rparr>]\<rparr>]
                 (getAllDefinitions (toolCache example_state)) ''tool_search_tool_regex'')
            = Inr example_response"
    by (simp add: example_send_def)
  have q: "query (search_args ''x'' (Some 0)) = Some ''x''"
    by (simp add: search_args_def)
  have ne: "''x'' \<noteq> []" by simp
  from search_tools_found(1) [where send = example_send and response = example_response,
           OF q ne example_nonempty s]
  show ?thesis
    by (simp add: handle_call_def search_args_def example_collected extractToolReferences_eq)
qed

section \<open>Initialising the pool\<close>


lemma connectServer_cases:
  obtains (failed) err where "connectServer connect s sn cfg = Inl err"
      and "\<And>s0. connectServer connect s0 sn cfg = Inl err"
  | (connected) cl listed where "connect sn (select_transport cfg) = Inr cl"
      and "listTools_outcome cl = Inr listed"
      and "\<And>s0. connectServer connect s0 sn cfg
             = Inr (console_error
                 (s0\<lparr>toolCache := addFromServer (toolCache s0) sn (map toolDef listed),
                     clients := Map_set (clients s0) sn \<lparr>client = cl, config = cfg\<rparr>\<rparr>)
                 (Cached (length (map toolDef listed)) sn))"
proof (cases "connect sn (select_transport cfg)")
  case (Inl err)
  then show ?thesis
    by (intro failed [of err]) (simp_all add: connectServer_def)
next
  case (Inr cl)
  show ?thesis
  proof (cases "listTools_outcome cl")
    case (Inl err)
    with Inr show ?thesis
      by (intro failed [of err]) (simp_all add: connectServer_def)
  next
    case listed: (Inr listed)
    with Inr show ?thesis
      by (intro connected [of cl listed]) (simp_all add: connectServer_def)
  qed
qed



lemma connects_iff:
  "connects connect (sn, cfg) \<longleftrightarrow> (\<exists>s'. connectServer connect s sn cfg = Inr s')"
  by (cases rule: connectServer_cases [of connect s sn cfg]) (simp_all add: connects_def)






















end
